theory Spec2Isabelle
  imports Main
begin

section \<open>Data model of the Google Drive service\<close>

text \<open>
  The service class \<open>GoogleDriveService\<close> keeps an access token and four cached folder
  identifiers, and talks to the storage provider through \<open>fetch\<close>. The embedding
  threads the fields, the provider and the log of requests through every operation;
  a thrown \<open>Error\<close> is the \<open>Inl\<close> branch of the result.
\<close>

text \<open>\<open>interface FileMetadata\<close>: optional fields are \<open>None\<close> when absent.\<close>

record FileMetadata =
  id_m :: string
  name_m :: string
  mimeType_m :: string
  size_m :: nat
  createdTime_m :: string
  modifiedTime_m :: string
  description_m :: "string option"
  tags_m :: "string list option"
  category_m :: "string option"
  documentName_m :: "string option"

text \<open>\<open>Partial<FileMetadata>\<close>: every field may be absent.\<close>

record PartialMetadata =
  id_p :: "string option"
  name_p :: "string option"
  mimeType_p :: "string option"
  size_p :: "nat option"
  createdTime_p :: "string option"
  modifiedTime_p :: "string option"
  description_p :: "string option"
  tags_p :: "string list option"
  category_p :: "string option"
  documentName_p :: "string option"

text \<open>\<open>interface UploadResult\<close>.\<close>

record UploadResult =
  success :: bool
  fileId :: "string option"
  metadataId :: "string option"
  error :: "string option"

text \<open>
  The file handed to \<open>uploadFile\<close>: a browser \<open>File\<close> (\<open>uri_in = None\<close>) or the
  React Native object \<open>{uri, name, type, size}\<close>.
\<close>

record UploadInput =
  uri_in :: "string option"
  name_in :: string
  type_in :: string
  size_in :: nat

text \<open>
  A file resource as the provider lists it: the native attributes requested by
  \<open>listFiles\<close> (\<open>size\<close> and \<open>webViewLink\<close> may be missing).
\<close>

record DriveFile =
  id_f :: string
  name_f :: string
  mimeType_f :: string
  size_f :: "nat option"
  createdTime_f :: string
  modifiedTime_f :: string
  webViewLink_f :: "string option"

text \<open>
  The JSON objects that travel between the service and the provider. \<open>SuccessObj\<close> is
  the object \<open>{success: true}\<close> that \<open>makeRequest\<close> returns when there is no body to
  parse; \<open>OtherObj\<close> is an object with none of the fields the service reads.
\<close>

datatype payload =
    FileList "DriveFile list"
  | FileObj DriveFile
  | MetadataObj FileMetadata
  | SuccessObj
  | OtherObj

text \<open>\<open>x.files\<close> and \<open>x.id\<close> and \<open>x.name\<close>; \<open>None\<close> is \<open>undefined\<close>.\<close>

fun files_of :: "payload \<Rightarrow> DriveFile list option" where
  "files_of (FileList fs) = Some fs"
| "files_of _ = None"

fun id_of :: "payload \<Rightarrow> string option" where
  "id_of (FileObj f) = Some (id_f f)"
| "id_of (MetadataObj m) = Some (id_m m)"
| "id_of _ = None"


text \<open>
  The body written into a sidecar. \<open>Spread x p t\<close> stands for the object
  \<open>{...x, ...p, modifiedTime: t}\<close> over a base \<open>x\<close> that is not a metadata record.
\<close>

datatype sidecar = Document FileMetadata | Spread payload PartialMetadata string

text \<open>
  The requests the service sends. A search carries the optional \<open>name='...'\<close> filter
  and the parent of \<open>'...' in parents and trashed=false\<close>; an upload carries the
  metadata part (name, parent, and for content files description and MIME type) and
  what is uploaded.
\<close>

datatype call =
    Search "string option" "string option"
  | CreateFolder string "string list"
  | UploadContent string "string option" string string "string option"
  | UploadSidecar string "string option" sidecar
  | PatchName string string
  | DeleteFile string
  | GetMedia string
  | About

record request =
  bearer :: "string option"
  target :: call

text \<open>
  What \<open>fetch\<close> gives back: it rejects (\<open>NetworkFailure\<close>) or resolves to a response
  with a status, a content type, the body text and the body parsed as JSON
  (\<open>None\<close> when the body is empty or not JSON).
\<close>

record http_response =
  status :: nat
  json_content_type :: bool
  text_r :: string
  json_r :: "payload option"

datatype fetched = NetworkFailure | Response http_response

definition ok :: "http_response \<Rightarrow> bool" where
  "ok r = (200 \<le> status r \<and> status r \<le> 299)"

text \<open>Every \<open>Error\<close> the service throws, by the place that throws it.\<close>

datatype error =
    NoAccessToken
  | DriveApiError nat string
  | NetworkError
  | JsonSyntaxError
  | NotIterable
  | NoAccessTokenForInit
  | FolderInitFailed error
  | InitFoldersFailed
  | InitStructureFailed
  | UploadHttpError nat string
  | UploadMissingId
  | UploadFailed error
  | MetadataFolderNotInitialized
  | SaveMetadataFailed
  | GetMetadataFailed error
  | ValidateFailed error
  | TokenExpired
  | DeleteFailed error
  | UpdateNameFailed error
  | MetadataNotFound
  | UpdateHttpError nat string
  | UpdateMetadataFailed error

text \<open>Decimal rendering of a number inside a template string.\<close>

definition digit :: "nat \<Rightarrow> char" where
  "digit d = (if d = 0 then CHR ''0'' else if d = 1 then CHR ''1''
     else if d = 2 then CHR ''2'' else if d = 3 then CHR ''3''
     else if d = 4 then CHR ''4'' else if d = 5 then CHR ''5''
     else if d = 6 then CHR ''6'' else if d = 7 then CHR ''7''
     else if d = 8 then CHR ''8'' else CHR ''9'')"

fun show_nat :: "nat \<Rightarrow> string" where
  "show_nat n = (if n < 10 then [digit n] else show_nat (n div 10) @ [digit (n mod 10)])"

declare show_nat.simps [simp del]

text \<open>
  \<open>error.message\<close>, and \<open>'' + error\<close> (the name of the error class, a colon and the
  message).
\<close>

fun className :: "error \<Rightarrow> string" where
  "className NetworkError = ''TypeError''"
| "className NotIterable = ''TypeError''"
| "className JsonSyntaxError = ''SyntaxError''"
| "className _ = ''Error''"

fun message :: "error \<Rightarrow> string" where
  "message NoAccessToken = ''No access token available''"
| "message (DriveApiError s b) = ''Google Drive API error: '' @ show_nat s @ '' - '' @ b"
| "message NetworkError = ''Network request failed''"
| "message JsonSyntaxError = ''JSON Parse error''"
| "message NotIterable = ''response.files is not iterable''"
| "message NoAccessTokenForInit = ''No access token available for folder initialization''"
| "message (FolderInitFailed e) =
     ''Failed to initialize folder structure: '' @ className e @ '': '' @ message e"
| "message InitFoldersFailed = ''Failed to initialize Google Drive folders''"
| "message InitStructureFailed = ''Failed to initialize folder structure''"
| "message (UploadHttpError s b) = ''Upload failed: '' @ show_nat s @ '' - '' @ b"
| "message UploadMissingId = ''Upload response missing file ID''"
| "message (UploadFailed e) = ''Upload failed: '' @ message e"
| "message MetadataFolderNotInitialized = ''Metadata folder not initialized''"
| "message SaveMetadataFailed = ''Failed to save metadata''"
| "message (GetMetadataFailed e) =
     ''Failed to get file metadata: '' @ className e @ '': '' @ message e"
| "message (ValidateFailed e) = ''Error validating token: '' @ className e @ '': '' @ message e"
| "message TokenExpired = ''Access token is expired or invalid. Please log in again.''"
| "message (DeleteFailed e) = ''Failed to delete file: '' @ className e @ '': '' @ message e"
| "message (UpdateNameFailed e) =
     ''Failed to update file name: '' @ className e @ '': '' @ message e"
| "message MetadataNotFound = ''File metadata not found''"
| "message (UpdateHttpError s b) = ''Failed to update metadata: '' @ show_nat s @ '' - '' @ b"
| "message (UpdateMetadataFailed e) =
     ''Failed to update metadata: '' @ className e @ '': '' @ message e"

section \<open>The service state and the provider\<close>

text \<open>
  The private fields of \<open>GoogleDriveService\<close>, the provider behind \<open>fetch\<close> and the
  requests sent so far, oldest first.
\<close>

record 'w session =
  accessToken :: "string option"
  rootFolderId :: "string option"
  docsFolderId :: "string option"
  metadataFolderId :: "string option"
  settingsFolderId :: "string option"
  remote :: 'w
  calls :: "request list"

type_synonym 'w provider = "'w \<Rightarrow> request \<Rightarrow> fetched \<times> 'w"

type_synonym ('w, 'a) action = "'w session \<Rightarrow> (error + 'a) \<times> 'w session"

definition succeed :: "'a \<Rightarrow> ('w, 'a) action" where
  "succeed x = (\<lambda>st. (Inr x, st))"

definition throw :: "error \<Rightarrow> ('w, 'a) action" where
  "throw e = (\<lambda>st. (Inl e, st))"

definition andThen :: "('w, 'a) action \<Rightarrow> ('a \<Rightarrow> ('w, 'b) action) \<Rightarrow> ('w, 'b) action" where
  "andThen m f = (\<lambda>st. case m st of (Inl e, st') \<Rightarrow> (Inl e, st') | (Inr x, st') \<Rightarrow> f x st')"

definition tryCatch :: "('w, 'a) action \<Rightarrow> (error \<Rightarrow> ('w, 'a) action) \<Rightarrow> ('w, 'a) action" where
  "tryCatch m h = (\<lambda>st. case m st of (Inl e, st') \<Rightarrow> h e st' | (Inr x, st') \<Rightarrow> (Inr x, st'))"

text \<open>JavaScript truthiness of a \<open>string | null | undefined\<close>.\<close>

definition truthy :: "string option \<Rightarrow> bool" where
  "truthy v = (case v of None \<Rightarrow> False | Some s \<Rightarrow> s \<noteq> [])"

text \<open>\<open>a || b\<close> on strings.\<close>

definition orElse :: "string option \<Rightarrow> string \<Rightarrow> string" where
  "orElse v d = (case v of None \<Rightarrow> d | Some s \<Rightarrow> if s = [] then d else s)"

text \<open>
  One \<open>fetch\<close>: the provider answers and moves on, the request is logged, and a
  rejected promise is thrown.
\<close>

definition fetch :: "'w provider \<Rightarrow> call \<Rightarrow> ('w, http_response) action" where
  "fetch F c = (\<lambda>st.
     let req = \<lparr>bearer = accessToken st, target = c\<rparr>;
         (r, w) = F (remote st) req;
         st' = st\<lparr>remote := w, calls := calls st @ [req]\<rparr>
     in case r of NetworkFailure \<Rightarrow> (Inl NetworkError, st') | Response resp \<Rightarrow> (Inr resp, st'))"

datatype http_method = GET | POST | PATCH | DELETE

fun method_of :: "call \<Rightarrow> http_method" where
  "method_of (CreateFolder n ps) = POST"
| "method_of (UploadContent n p d m u) = POST"
| "method_of (UploadSidecar n p s) = POST"
| "method_of (PatchName i n) = PATCH"
| "method_of (DeleteFile i) = DELETE"
| "method_of _ = GET"

definition ROOT_FOLDER_NAME :: string where "ROOT_FOLDER_NAME = ''wecare''"
definition DOCS_FOLDER_NAME :: string where "DOCS_FOLDER_NAME = ''docs''"
definition METADATA_FOLDER_NAME :: string where "METADATA_FOLDER_NAME = ''metadata''"
definition SETTINGS_FOLDER_NAME :: string where "SETTINGS_FOLDER_NAME = ''settings''"
definition MAX_FILE_SIZE :: nat where "MAX_FILE_SIZE = 100 * 1024 * 1024"

section \<open>The operations\<close>

definition makeRequest :: "'w provider \<Rightarrow> call \<Rightarrow> ('w, payload) action" where
  "makeRequest F c = (\<lambda>st.
     if \<not> truthy (accessToken st) then throw NoAccessToken st
     else andThen (fetch F c) (\<lambda>response.
       if \<not> ok response then throw (DriveApiError (status response) (text_r response))
       else if method_of c = DELETE then succeed SuccessObj
       else if method_of c = PATCH then
         (if json_content_type response
          then (case json_r response of Some responseData \<Rightarrow> succeed responseData
                | None \<Rightarrow> succeed SuccessObj)
          else succeed SuccessObj)
       else (case json_r response of Some responseData \<Rightarrow> succeed responseData
             | None \<Rightarrow> succeed SuccessObj)) st)"

definition findOrCreateFolder ::
  "'w provider \<Rightarrow> string \<Rightarrow> string option \<Rightarrow> ('w, string option) action" where
  "findOrCreateFolder F folderName parentId =
     andThen (makeRequest F
       (Search (Some folderName) (if truthy parentId then parentId else Some ''root'')))
     (\<lambda>searchResponse.
        case files_of searchResponse of
          Some (f # fs) \<Rightarrow> succeed (Some (id_f f))
        | _ \<Rightarrow>
          andThen (makeRequest F
            (CreateFolder folderName
               (case parentId of Some p \<Rightarrow> if p = [] then [] else [p] | None \<Rightarrow> [])))
          (\<lambda>createResponse. succeed (id_of createResponse)))"

definition initializeFolderStructure :: "'w provider \<Rightarrow> ('w, bool) action" where
  "initializeFolderStructure F =
     tryCatch
       (\<lambda>st.
          if \<not> truthy (accessToken st) then throw NoAccessTokenForInit st
          else
            andThen (findOrCreateFolder F ROOT_FOLDER_NAME None) (\<lambda>root st1.
            andThen (findOrCreateFolder F DOCS_FOLDER_NAME root) (\<lambda>docs st2.
            andThen (findOrCreateFolder F METADATA_FOLDER_NAME root) (\<lambda>meta st3.
            andThen (findOrCreateFolder F SETTINGS_FOLDER_NAME root) (\<lambda>settings st4.
              succeed True (st4\<lparr>settingsFolderId := settings\<rparr>))
              (st3\<lparr>metadataFolderId := meta\<rparr>))
              (st2\<lparr>docsFolderId := docs\<rparr>))
              (st1\<lparr>rootFolderId := root\<rparr>))
            st)
       (\<lambda>e. throw (FolderInitFailed e))"

definition saveMetadata ::
  "'w provider \<Rightarrow> string \<Rightarrow> FileMetadata \<Rightarrow> ('w, string option) action" where
  "saveMetadata F fid metadata = (\<lambda>st.
     if \<not> truthy (metadataFolderId st) then throw MetadataFolderNotInitialized st
     else
       andThen (fetch F
         (UploadSidecar (fid @ ''_metadata.json'') (metadataFolderId st) (Document metadata)))
       (\<lambda>response.
          if \<not> ok response then throw SaveMetadataFailed
          else (case json_r response of None \<Rightarrow> throw JsonSyntaxError
                | Some result \<Rightarrow> succeed (id_of result))) st)"

text \<open>
  \<open>uploadFile\<close>. The two clock readings are the two \<open>new Date().toISOString()\<close> of the
  metadata record. Both branches of \<open>'uri' in file\<close> send the same metadata part and
  build the same record; they differ in how the bytes are attached, which the request
  keeps as the optional \<open>uri\<close>.
\<close>

definition sizeLimitMessage :: string where
  "sizeLimitMessage =
     ''File size exceeds limit of '' @ show_nat (MAX_FILE_SIZE div (1024 * 1024)) @ ''MB''"

definition uploadFile ::
  "'w provider \<Rightarrow> UploadInput \<Rightarrow> PartialMetadata \<Rightarrow> string \<Rightarrow> string \<Rightarrow> ('w, UploadResult) action"
  where
  "uploadFile F file metadata created modified =
     tryCatch
       (andThen
          (\<lambda>st. if \<not> truthy (docsFolderId st)
                then andThen (initializeFolderStructure F)
                       (\<lambda>initSuccess. if \<not> initSuccess then throw InitFoldersFailed
                                       else succeed ()) st
                else succeed () st)
          (\<lambda>_. if size_in file > MAX_FILE_SIZE
                then succeed \<lparr>success = False, fileId = None, metadataId = None,
                              error = Some sizeLimitMessage\<rparr>
                else (\<lambda>st.
                  andThen (fetch F
                    (UploadContent (orElse (documentName_p metadata) (name_in file))
                       (docsFolderId st) (orElse (description_p metadata) [])
                       (type_in file) (uri_in file)))
                  (\<lambda>uploadResponse.
                     if \<not> ok uploadResponse
                     then throw (UploadHttpError (status uploadResponse) (text_r uploadResponse))
                     else (case json_r uploadResponse of None \<Rightarrow> throw JsonSyntaxError
                       | Some uploadedFile \<Rightarrow>
                         (case id_of uploadedFile of None \<Rightarrow> throw UploadMissingId
                          | Some fid \<Rightarrow>
                            if fid = [] then throw UploadMissingId
                            else
                              andThen (saveMetadata F fid
                                \<lparr>id_m = fid, name_m = name_in file,
                                 mimeType_m = type_in file, size_m = size_in file,
                                 createdTime_m = created, modifiedTime_m = modified,
                                 description_m = description_p metadata,
                                 tags_m = Some (case tags_p metadata of None \<Rightarrow> []
                                                | Some ts \<Rightarrow> ts),
                                 category_m = category_p metadata,
                                 documentName_m = None\<rparr>)
                              (\<lambda>metadataResult.
                                 succeed \<lparr>success = True, fileId = Some fid,
                                          metadataId = metadataResult,
                                          error = None\<rparr>)))) st)))
       (\<lambda>e. throw (UploadFailed e))"

definition getFileMetadata :: "'w provider \<Rightarrow> string \<Rightarrow> ('w, payload option) action" where
  "getFileMetadata F fid =
     tryCatch
       (\<lambda>st.
          if \<not> truthy (metadataFolderId st) then throw MetadataFolderNotInitialized st
          else
            andThen (makeRequest F
              (Search (Some (fid @ ''_metadata.json'')) (metadataFolderId st)))
            (\<lambda>searchResponse.
               case files_of searchResponse of
                 Some (f # fs) \<Rightarrow>
                   andThen (makeRequest F (GetMedia (id_f f)))
                     (\<lambda>metadataResponse. succeed (Some metadataResponse))
               | _ \<Rightarrow> succeed None) st)
       (\<lambda>e. throw (GetMetadataFailed e))"

definition validateToken :: "'w provider \<Rightarrow> ('w, bool) action" where
  "validateToken F =
     tryCatch
       (\<lambda>st. if \<not> truthy (accessToken st) then succeed False st
              else andThen (fetch F About) (\<lambda>response. succeed (ok response)) st)
       (\<lambda>e. throw (ValidateFailed e))"

text \<open>
  What \<open>listFiles\<close> returns for one content file: the object it pushes, with the
  \<open>fileUrl\<close> it attaches.
\<close>

record ListedFile =
  entry :: payload
  fileUrl :: string

definition viewUrl :: "DriveFile \<Rightarrow> string" where
  "viewUrl file =
     orElse (webViewLink_f file) (''https://drive.google.com/file/d/'' @ id_f file @ ''/view'')"

definition fallbackMetadata :: "DriveFile \<Rightarrow> FileMetadata" where
  "fallbackMetadata file =
     \<lparr>id_m = id_f file, name_m = name_f file, mimeType_m = mimeType_f file,
      size_m = (case size_f file of None \<Rightarrow> 0 | Some n \<Rightarrow> n),
      createdTime_m = createdTime_f file, modifiedTime_m = modifiedTime_f file,
      description_m = Some [], tags_m = Some [], category_m = Some ''others'',
      documentName_m = None\<rparr>"

definition fallbackEntry :: "DriveFile \<Rightarrow> ListedFile" where
  "fallbackEntry file = \<lparr>entry = MetadataObj (fallbackMetadata file), fileUrl = viewUrl file\<rparr>"

text \<open>
  The loop \<open>for (const file of response.files)\<close> of \<open>listFiles\<close>, with its
  \<open>try\<close>/\<open>catch\<close> around each file. The records are returned in the order in which
  the loop pushes them.
\<close>

fun listLoop :: "'w provider \<Rightarrow> DriveFile list \<Rightarrow> 'w session \<Rightarrow> ListedFile list \<times> 'w session" where
  "listLoop F [] st = ([], st)"
| "listLoop F (file # rest) st =
     (case getFileMetadata F (id_f file) st of
        (Inr (Some metadata), st1) \<Rightarrow>
          (case listLoop F rest st1 of
             (files, st2) \<Rightarrow> (\<lparr>entry = metadata, fileUrl = viewUrl file\<rparr> # files, st2))
      | (Inr None, st1) \<Rightarrow>
          (case listLoop F rest st1 of (files, st2) \<Rightarrow> (fallbackEntry file # files, st2))
      | (Inl e, st1) \<Rightarrow>
          (case listLoop F rest st1 of (files, st2) \<Rightarrow> (fallbackEntry file # files, st2)))"

text \<open>
  The steps of \<open>listFiles\<close> before its loop: the token is checked and validated, the
  folder structure is provisioned when the documents folder is not cached, and the
  content files of the documents folder are requested. Iterating over a response
  without a \<open>files\<close> array throws.
\<close>

definition enumerateFiles :: "'w provider \<Rightarrow> ('w, DriveFile list) action" where
  "enumerateFiles F = (\<lambda>st.
     if \<not> truthy (accessToken st) then throw NoAccessToken st
     else
       andThen (validateToken F) (\<lambda>isTokenValid.
         if \<not> isTokenValid then throw TokenExpired
         else
           andThen
             (\<lambda>st1. if \<not> truthy (docsFolderId st1)
                     then andThen (initializeFolderStructure F)
                            (\<lambda>initSuccess. if \<not> initSuccess then throw InitStructureFailed
                                            else succeed ()) st1
                     else succeed () st1)
             (\<lambda>_ st2.
                andThen (makeRequest F (Search None (docsFolderId st2)))
                  (\<lambda>response.
                     case files_of response of
                       None \<Rightarrow> throw NotIterable
                     | Some fs \<Rightarrow> succeed fs) st2)) st)"

text \<open>The outer \<open>catch\<close> of \<open>listFiles\<close> rethrows the error it caught.\<close>

definition listFiles :: "'w provider \<Rightarrow> ('w, ListedFile list) action" where
  "listFiles F =
     tryCatch
       (andThen (enumerateFiles F)
          (\<lambda>fs st. case listLoop F fs st of (files, st') \<Rightarrow> (Inr files, st')))
       (\<lambda>e. throw e)"

definition deleteFile :: "'w provider \<Rightarrow> string \<Rightarrow> ('w, bool) action" where
  "deleteFile F fid =
     tryCatch
       (\<lambda>st.
          if \<not> truthy (accessToken st) then succeed False st
          else
            andThen (makeRequest F (DeleteFile fid)) (\<lambda>_ st1.
              if truthy (metadataFolderId st1)
              then
                andThen (makeRequest F
                  (Search (Some (fid @ ''_metadata.json'')) (metadataFolderId st1)))
                (\<lambda>searchResponse.
                   case files_of searchResponse of
                     Some (f # fs) \<Rightarrow>
                       andThen (makeRequest F (DeleteFile (id_f f))) (\<lambda>_. succeed True)
                   | _ \<Rightarrow> succeed True) st1
              else succeed True st1) st)
       (\<lambda>e. throw (DeleteFailed e))"







section \<open>Providers\<close>

text \<open>
  A scripted provider answers the requests of one run with a fixed sequence of
  outcomes, whatever is asked; when the script is used up the network is down.
  Every behaviour of a provider during one operation is such a script.
\<close>

definition scripted :: "fetched list provider" where
  "scripted w req = (case w of [] \<Rightarrow> (NetworkFailure, []) | r # rs \<Rightarrow> (r, rs))"

definition okJson :: "payload \<Rightarrow> fetched" where
  "okJson p = Response \<lparr>status = 200, json_content_type = True, text_r = [], json_r = Some p\<rparr>"

definition noContent :: fetched where
  "noContent = Response \<lparr>status = 204, json_content_type = False, text_r = [], json_r = None\<rparr>"

definition httpError :: "nat \<Rightarrow> string \<Rightarrow> fetched" where
  "httpError s b = Response \<lparr>status = s, json_content_type = False, text_r = b, json_r = None\<rparr>"

text \<open>
  Modelled from the spec: the provider's file API of section 6 (list/search with the
  filter \<open>name='X' and 'Y' in parents and trashed=false\<close>, and folder creation), which
  is an external service and not code of this repository. A drive holds its entries in
  creation order and the identifiers it will hand out next; a request without a bearer
  token is refused, a folder created without parents lands under \<open>root\<close>, and the
  endpoints that folder provisioning does not use answer 501.
\<close>

record DriveEntry =
  entry_id :: string
  entry_name :: string
  entry_parents :: "string list"
  entry_trashed :: bool

record drive =
  entries :: "DriveEntry list"
  unused_ids :: "string list"

definition matches :: "string option \<Rightarrow> string option \<Rightarrow> DriveEntry \<Rightarrow> bool" where
  "matches nm parent e =
     ((case nm of None \<Rightarrow> True | Some n \<Rightarrow> entry_name e = n) \<and>
      (case parent of None \<Rightarrow> False | Some p \<Rightarrow> p \<in> set (entry_parents e)) \<and>
      \<not> entry_trashed e)"

definition listed :: "DriveEntry \<Rightarrow> DriveFile" where
  "listed e = \<lparr>id_f = entry_id e, name_f = entry_name e, mimeType_f = [], size_f = None,
               createdTime_f = [], modifiedTime_f = [], webViewLink_f = None\<rparr>"

definition driveProvider :: "drive provider" where
  "driveProvider d req =
     (if \<not> truthy (bearer req) then (httpError 401 ''Unauthorized'', d)
      else case target req of
        Search nm parent \<Rightarrow>
          (okJson (FileList (map listed (filter (matches nm parent) (entries d)))), d)
      | CreateFolder folderName parents \<Rightarrow>
          (case unused_ids d of
             [] \<Rightarrow> (httpError 500 ''Internal Error'', d)
           | i # rest \<Rightarrow>
               (let e = \<lparr>entry_id = i, entry_name = folderName,
                          entry_parents = (if parents = [] then [''root''] else parents),
                          entry_trashed = False\<rparr>
                in (okJson (FileObj (listed e)),
                    d\<lparr>entries := entries d @ [e], unused_ids := rest\<rparr>)))
      | _ \<Rightarrow> (httpError 501 ''Not Implemented'', d))"

section \<open>Example inputs\<close>

text \<open>
  Concrete sessions, files and provider states on which the theorems below are
  instantiated.
\<close>

definition emptyPartial :: PartialMetadata where
  "emptyPartial = \<lparr>id_p = None, name_p = None, mimeType_p = None, size_p = None,
     createdTime_p = None, modifiedTime_p = None, description_p = None, tags_p = None,
     category_p = None, documentName_p = None\<rparr>"

definition freshSession :: "'w \<Rightarrow> 'w session" where
  "freshSession w = \<lparr>accessToken = Some ''token'', rootFolderId = None, docsFolderId = None,
     metadataFolderId = None, settingsFolderId = None, remote = w, calls = []\<rparr>"

definition readySession :: "'w \<Rightarrow> 'w session" where
  "readySession w = \<lparr>accessToken = Some ''token'', rootFolderId = Some ''r'',
     docsFolderId = Some ''d'', metadataFolderId = Some ''m'', settingsFolderId = Some ''s'',
     remote = w, calls = []\<rparr>"

definition report :: UploadInput where
  "report = \<lparr>uri_in = Some ''file:///report.pdf'', name_in = ''report.pdf'',
     type_in = ''application/pdf'', size_in = 10240\<rparr>"


definition emptyDrive :: drive where
  "emptyDrive = \<lparr>entries = [], unused_ids = [''a'', ''b'', ''c'', ''d'', ''e'']\<rparr>"

definition driveFile :: "string \<Rightarrow> string \<Rightarrow> DriveFile" where
  "driveFile i n = \<lparr>id_f = i, name_f = n, mimeType_f = ''application/pdf'', size_f = Some 10240,
     createdTime_f = ''2024-01-01T00:00:00.000Z'', modifiedTime_f = ''2024-01-01T00:00:00.000Z'',
     webViewLink_f = None\<rparr>"




definition uploadScript :: "fetched list" where
  "uploadScript = [okJson (FileObj (driveFile ''f1'' ''report.pdf'')),
                   okJson (FileObj (driveFile ''m1'' ''f1_metadata.json''))]"




text \<open>
  The entry the drive adds when \<open>findOrCreateFolder\<close> has to create the folder \<open>n\<close>
  under the parent \<open>p\<close> and the drive hands out the identifier \<open>i\<close>.
\<close>

definition folderCreated :: "string \<Rightarrow> string option \<Rightarrow> string \<Rightarrow> DriveEntry" where
  "folderCreated n p i = \<lparr>entry_id = i, entry_name = n, entry_parents = [orElse p ''root''],
     entry_trashed = False\<rparr>"

section \<open>Running an action step by step\<close>

lemma succeed_Inr: "succeed x st = (Inr y, st') \<longleftrightarrow> x = y \<and> st = st'"
  by (auto simp: succeed_def)

lemma succeed_Inl: "succeed x st = (Inl e, st') \<longleftrightarrow> False"
  by (simp add: succeed_def)

lemma throw_Inr: "throw e st = (Inr y, st') \<longleftrightarrow> False"
  by (simp add: throw_def)

lemma throw_Inl: "throw e st = (Inl e', st') \<longleftrightarrow> e = e' \<and> st = st'"
  by (auto simp: throw_def)

lemma andThen_Inr:
  "andThen m f st = (Inr y, st') \<longleftrightarrow> (\<exists>x s1. m st = (Inr x, s1) \<and> f x s1 = (Inr y, st'))"
  by (auto simp: andThen_def split: sum.splits prod.splits)

lemma andThen_Inl:
  "andThen m f st = (Inl e, st') \<longleftrightarrow>
     m st = (Inl e, st') \<or> (\<exists>x s1. m st = (Inr x, s1) \<and> f x s1 = (Inl e, st'))"
  by (auto simp: andThen_def split: sum.splits prod.splits)

lemma tryCatch_Inr:
  "tryCatch m h st = (Inr y, st') \<longleftrightarrow>
     m st = (Inr y, st') \<or> (\<exists>e s1. m st = (Inl e, s1) \<and> h e s1 = (Inr y, st'))"
  by (auto simp: tryCatch_def split: sum.splits prod.splits)

lemma tryCatch_Inl:
  "tryCatch m h st = (Inl e, st') \<longleftrightarrow> (\<exists>c s1. m st = (Inl c, s1) \<and> h c s1 = (Inl e, st'))"
  by (auto simp: tryCatch_def split: sum.splits prod.splits)

lemma if_run: "(if c then a else b) st = (if c then a st else b st)"
  by simp

lemma option_run:
  "(case v of None \<Rightarrow> a | Some x \<Rightarrow> b x) st = (case v of None \<Rightarrow> a st | Some x \<Rightarrow> b x st)"
  by (cases v) simp_all

lemma if_result:
  "(if c then a else b) = (r, st') \<longleftrightarrow> (c \<and> a = (r, st')) \<or> (\<not> c \<and> b = (r, st'))"
  by simp

lemma option_result:
  "(case v of None \<Rightarrow> a | Some x \<Rightarrow> b x) = (r, st') \<longleftrightarrow>
     (v = None \<and> a = (r, st')) \<or> (\<exists>x. v = Some x \<and> b x = (r, st'))"
  by (cases v) simp_all

lemma list_run:
  "(case l of [] \<Rightarrow> a | x # xs \<Rightarrow> b x xs) st = (case l of [] \<Rightarrow> a st | x # xs \<Rightarrow> b x xs st)"
  by (cases l) simp_all

lemma list_result:
  "(case l of [] \<Rightarrow> a | x # xs \<Rightarrow> b x xs) = (r, st') \<longleftrightarrow>
     (l = [] \<and> a = (r, st')) \<or> (\<exists>x xs. l = x # xs \<and> b x xs = (r, st'))"
  by (cases l) simp_all

lemmas run_simps = succeed_Inr succeed_Inl throw_Inr throw_Inl andThen_Inr andThen_Inl
  tryCatch_Inr tryCatch_Inl if_run option_run list_run if_result option_result list_result

lemmas action_defs = succeed_def throw_def andThen_def tryCatch_def

lemmas eval_defs = fetch_def action_defs truthy_def ok_def okJson_def httpError_def
  noContent_def scripted_def orElse_def


text \<open>A fetch logs its request and leaves the fields of the service alone.\<close>

lemma fetch_frame:
  assumes "fetch F c st = (r, st')"
  shows "calls st' = calls st @ [\<lparr>bearer = accessToken st, target = c\<rparr>]"
    and "accessToken st' = accessToken st" and "rootFolderId st' = rootFolderId st"
    and "docsFolderId st' = docsFolderId st" and "metadataFolderId st' = metadataFolderId st"
    and "settingsFolderId st' = settingsFolderId st"
  using assms by (auto simp: fetch_def Let_def split: prod.splits fetched.splits)

lemma makeRequest_frame:
  assumes "makeRequest F c st = (r, st')"
  shows "accessToken st' = accessToken st" and "rootFolderId st' = rootFolderId st"
    and "docsFolderId st' = docsFolderId st" and "metadataFolderId st' = metadataFolderId st"
    and "settingsFolderId st' = settingsFolderId st"
  using assms
  by (cases r; auto simp: makeRequest_def run_simps dest: fetch_frame split: if_splits)+

section \<open>Listing with reconciliation\<close>









section \<open>Upload\<close>







lemma uploadFile_success_calls:
  assumes "uploadFile F input metadata created modified st = (Inr r, st')" and "success r"
  shows "\<exists>cs b1 b2 i. fileId r = Some i \<and> calls st' = cs @
       [\<lparr>bearer = b1,
         target = UploadContent (orElse (documentName_p metadata) (name_in input))
            (docsFolderId st') (orElse (description_p metadata) []) (type_in input)
            (uri_in input)\<rparr>,
        \<lparr>bearer = b2,
         target = UploadSidecar (i @ ''_metadata.json'') (metadataFolderId st')
            (Document \<lparr>id_m = i, name_m = name_in input, mimeType_m = type_in input,
               size_m = size_in input, createdTime_m = created, modifiedTime_m = modified,
               description_m = description_p metadata,
               tags_m = Some (case tags_p metadata of None \<Rightarrow> [] | Some ts \<Rightarrow> ts),
               category_m = category_p metadata, documentName_m = None\<rparr>)\<rparr>]"
proof -
  from assms obtain s1 resp s2 i resp2 where
    up: "fetch F (UploadContent (orElse (documentName_p metadata) (name_in input))
        (docsFolderId s1) (orElse (description_p metadata) []) (type_in input) (uri_in input)) s1
        = (Inr resp, s2)"
    and i: "fileId r = Some i"
    and sc: "fetch F (UploadSidecar (i @ ''_metadata.json'') (metadataFolderId s2)
        (Document \<lparr>id_m = i, name_m = name_in input, mimeType_m = type_in input,
           size_m = size_in input, createdTime_m = created, modifiedTime_m = modified,
           description_m = description_p metadata,
           tags_m = Some (case tags_p metadata of None \<Rightarrow> [] | Some ts \<Rightarrow> ts),
           category_m = category_p metadata, documentName_m = None\<rparr>)) s2 = (Inr resp2, st')"
    by (auto simp add: uploadFile_def saveMetadata_def run_simps)
  from fetch_frame [OF up] fetch_frame [OF sc]
  have "calls st' = calls s1 @
       [\<lparr>bearer = accessToken s1,
         target = UploadContent (orElse (documentName_p metadata) (name_in input))
            (docsFolderId st') (orElse (description_p metadata) []) (type_in input)
            (uri_in input)\<rparr>,
        \<lparr>bearer = accessToken s2,
         target = UploadSidecar (i @ ''_metadata.json'') (metadataFolderId st')
            (Document \<lparr>id_m = i, name_m = name_in input, mimeType_m = type_in input,
               size_m = size_in input, createdTime_m = created, modifiedTime_m = modified,
               description_m = description_p metadata,
               tags_m = Some (case tags_p metadata of None \<Rightarrow> [] | Some ts \<Rightarrow> ts),
               category_m = category_p metadata, documentName_m = None\<rparr>)\<rparr>]"
    by simp
  with i show ?thesis
    by blast
qed

text \<open>
  Claim C10. When a non-empty \<open>documentName\<close> different from the name of the payload is
  given and the upload succeeds, the last two requests are the upload of the content into
  the documents folder under the override name and the upload of the sidecar, whose
  record carries the identifier of the new file and the original name of the payload: the
  two names differ.
\<close>

theorem uploadFile_names_diverge:
  assumes "documentName_p metadata = Some d" and "d \<noteq> []" and "d \<noteq> name_in input"
    and "uploadFile F input metadata created modified st = (Inr r, st')" and "success r"
  shows "\<exists>cs b1 b2 i m.
     calls st' = cs @
       [\<lparr>bearer = b1, target = UploadContent d (docsFolderId st')
            (orElse (description_p metadata) []) (type_in input) (uri_in input)\<rparr>,
        \<lparr>bearer = b2, target = UploadSidecar (i @ ''_metadata.json'') (metadataFolderId st')
            (Document m)\<rparr>]
     \<and> fileId r = Some i \<and> id_m m = i \<and> name_m m = name_in input \<and> name_m m \<noteq> d"
proof -
  have "orElse (documentName_p metadata) (name_in input) = d"
    using assms(1,2) by (simp add: orElse_def)
  with uploadFile_success_calls [OF assms(4,5)] assms(3) show ?thesis
    by auto
qed

theorem uploadFile_names_diverge_witness:
  "documentName_p (emptyPartial\<lparr>documentName_p := Some ''Blood test''\<rparr>) = Some ''Blood test'' \<and>
   ''Blood test'' \<noteq> name_in report \<and>
   map target (calls (snd (uploadFile scripted report
      (emptyPartial\<lparr>documentName_p := Some ''Blood test''\<rparr>) ''t1'' ''t2''
      (readySession uploadScript)))) =
     [UploadContent ''Blood test'' (Some ''d'') [] ''application/pdf'' (Some ''file:///report.pdf''),
      UploadSidecar ''f1_metadata.json'' (Some ''m'')
        (Document \<lparr>id_m = ''f1'', name_m = ''report.pdf'', mimeType_m = ''application/pdf'',
           size_m = 10240, createdTime_m = ''t1'', modifiedTime_m = ''t2'',
           description_m = None, tags_m = Some [], category_m = None,
           documentName_m = None\<rparr>)]"
proof -
  let ?md = "emptyPartial\<lparr>documentName_p := Some ''Blood test''\<rparr>"
  let ?run = "uploadFile scripted report ?md ''t1'' ''t2'' (readySession uploadScript)"
  have run: "?run =
     (Inr \<lparr>success = True, fileId = Some ''f1'', metadataId = Some ''m1'', error = None\<rparr>,
      snd ?run)"
    by (simp add: uploadFile_def saveMetadata_def eval_defs readySession_def report_def
        uploadScript_def driveFile_def emptyPartial_def MAX_FILE_SIZE_def)
  have h1: "documentName_p ?md = Some ''Blood test''"
    by simp
  have h2: "''Blood test'' \<noteq> name_in report"
    by (simp add: report_def)
  from uploadFile_names_diverge [OF h1 _ h2 run] h1 h2 show ?thesis
    by (simp add: uploadFile_def saveMetadata_def eval_defs readySession_def report_def
        uploadScript_def driveFile_def emptyPartial_def MAX_FILE_SIZE_def)
qed

section \<open>Deletion\<close>

text \<open>
  Claim C2, as the code has it. Once the content file is deleted, \<open>deleteFile\<close> returns
  \<open>true\<close> when no metadata folder is cached, when the sidecar search finds nothing, and
  when the sidecar it finds is deleted; but a sidecar search or a sidecar deletion that
  fails is surfaced: \<open>deleteFile\<close> throws \<open>Failed to delete file\<close> with that error as cause.
\<close>

theorem deleteFile_after_content_gone:
  assumes "truthy (accessToken st)"
    and "fetch F (DeleteFile fid) st = (Inr r1, st1)" and "ok r1"
  shows "(\<not> truthy (metadataFolderId st) \<longrightarrow> deleteFile F fid st = (Inr True, st1)) \<and>
    (truthy (metadataFolderId st) \<longrightarrow>
      (case makeRequest F (Search (Some (fid @ ''_metadata.json'')) (metadataFolderId st)) st1 of
         (Inl e, st2) \<Rightarrow> deleteFile F fid st = (Inl (DeleteFailed e), st2)
       | (Inr searchResponse, st2) \<Rightarrow>
           (case files_of searchResponse of
              Some (f # fs) \<Rightarrow>
                (case makeRequest F (DeleteFile (id_f f)) st2 of
                   (Inl e, st3) \<Rightarrow> deleteFile F fid st = (Inl (DeleteFailed e), st3)
                 | (Inr x, st3) \<Rightarrow> deleteFile F fid st = (Inr True, st3))
            | _ \<Rightarrow> deleteFile F fid st = (Inr True, st2))))"
proof -
  have same: "metadataFolderId st1 = metadataFolderId st"
    using fetch_frame [OF assms(2)] by simp
  have first: "makeRequest F (DeleteFile fid) st = (Inr SuccessObj, st1)"
    using assms by (simp add: makeRequest_def action_defs)
  show ?thesis
    by (simp add: deleteFile_def action_defs assms(1) first same
        split: sum.splits prod.splits option.splits list.splits)
qed

theorem deleteFile_after_content_gone_witness:
  "truthy (accessToken (readySession [noContent, okJson (FileList [])])) \<and>
   deleteFile scripted ''f1'' (readySession [noContent, okJson (FileList [])]) =
     (Inr True, (readySession [])\<lparr>calls :=
        [\<lparr>bearer = Some ''token'', target = DeleteFile ''f1''\<rparr>,
         \<lparr>bearer = Some ''token'', target = Search (Some ''f1_metadata.json'') (Some ''m'')\<rparr>]\<rparr>)"
proof -
  let ?start = "readySession [noContent, okJson (FileList [])]"
  let ?mid = "(readySession [okJson (FileList [])])\<lparr>calls :=
        [\<lparr>bearer = Some ''token'', target = DeleteFile ''f1''\<rparr>]\<rparr>"
  have h1: "truthy (accessToken ?start)"
    by (simp add: readySession_def truthy_def)
  have h2: "fetch scripted (DeleteFile ''f1'') ?start
      = (Inr \<lparr>status = 204, json_content_type = False, text_r = [], json_r = None\<rparr>, ?mid)"
    by (simp add: eval_defs readySession_def)
  have h3: "ok \<lparr>status = 204, json_content_type = False, text_r = [], json_r = None\<rparr>"
    by (simp add: ok_def)
  from deleteFile_after_content_gone [OF h1 h2 h3] h1 show ?thesis
    by (simp add: makeRequest_def eval_defs readySession_def)
qed

text \<open>
  The claim as stated fails: the content file is deleted (status 204), the sidecar search
  is answered with status 500, and the whole operation throws.
\<close>

theorem deleteFile_sidecar_error_counterexample:
  "fst (deleteFile scripted ''f1'' (readySession [noContent, httpError 500 ''backend error'']))
     = Inl (DeleteFailed (DriveApiError 500 ''backend error''))"
  by (simp add: deleteFile_def makeRequest_def eval_defs readySession_def)

text \<open>
  Claim C9. With a token held, when the request that deletes the content file is rejected
  by the network or answered with a non-success status, \<open>deleteFile\<close> throws
  \<open>Failed to delete file\<close> with that remote error as cause, and the only request sent is
  that deletion: the sidecar is neither searched for nor deleted.
\<close>

theorem deleteFile_content_failure:
  assumes "truthy (accessToken st)"
    and "F (remote st) \<lparr>bearer = accessToken st, target = DeleteFile fid\<rparr> = (r, w)"
    and "r = NetworkFailure \<or> (\<exists>resp. r = Response resp \<and> \<not> ok resp)"
  shows "\<exists>e. deleteFile F fid st =
      (Inl (DeleteFailed e),
       st\<lparr>remote := w, calls := calls st @ [\<lparr>bearer = accessToken st, target = DeleteFile fid\<rparr>]\<rparr>)
     \<and> (e = NetworkError \<or> (\<exists>resp. r = Response resp \<and> e = DriveApiError (status resp) (text_r resp)))"
  using assms by (auto simp add: deleteFile_def makeRequest_def fetch_def action_defs)

theorem deleteFile_content_failure_witness:
  "truthy (accessToken (readySession [httpError 404 ''File not found'', noContent])) \<and>
   deleteFile scripted ''f1'' (readySession [httpError 404 ''File not found'', noContent]) =
     (Inl (DeleteFailed (DriveApiError 404 ''File not found'')),
      (readySession [noContent])\<lparr>calls :=
         [\<lparr>bearer = Some ''token'', target = DeleteFile ''f1''\<rparr>]\<rparr>)"
proof -
  let ?start = "readySession [httpError 404 ''File not found'', noContent]"
  have h1: "truthy (accessToken ?start)"
    by (simp add: readySession_def truthy_def)
  have h2: "scripted (remote ?start) \<lparr>bearer = accessToken ?start, target = DeleteFile ''f1''\<rparr>
      = (httpError 404 ''File not found'', [noContent])"
    by (simp add: scripted_def readySession_def)
  have h3: "httpError 404 ''File not found'' = NetworkFailure \<or>
      (\<exists>resp. httpError 404 ''File not found'' = Response resp \<and> \<not> ok resp)"
    by (simp add: httpError_def ok_def)
  from deleteFile_content_failure [where F = scripted and st = ?start and fid = "''f1''"
      and r = "httpError 404 ''File not found''" and w = "[noContent]", OF h1 h2 h3] h1
  show ?thesis
    by (auto simp add: deleteFile_def makeRequest_def eval_defs readySession_def)
qed

section \<open>Session expiry\<close>

text \<open>
  Claim C7. With a token held, when the validation request is answered with a non-success
  status, \<open>listFiles\<close> throws the error \<open>Access token is expired or invalid. Please log in
  again.\<close> after that single request; this error and its message differ from every error
  \<open>makeRequest\<close> raises for a non-success status of the provider.
\<close>

theorem listFiles_session_expired:
  assumes "truthy (accessToken st)"
    and "fetch F About st = (Inr r, st1)" and "\<not> ok r"
  shows "listFiles F st = (Inl TokenExpired, st1) \<and>
    message TokenExpired = ''Access token is expired or invalid. Please log in again.'' \<and>
    (\<forall>s b. TokenExpired \<noteq> DriveApiError s b \<and> message TokenExpired \<noteq> message (DriveApiError s b))"
  using assms by (simp add: listFiles_def enumerateFiles_def validateToken_def action_defs)

theorem listFiles_session_expired_witness:
  "truthy (accessToken (readySession [httpError 401 ''Invalid Credentials''])) \<and>
   listFiles scripted (readySession [httpError 401 ''Invalid Credentials'']) =
     (Inl TokenExpired,
      (readySession [])\<lparr>calls := [\<lparr>bearer = Some ''token'', target = About\<rparr>]\<rparr>)"
proof -
  let ?start = "readySession [httpError 401 ''Invalid Credentials'']"
  have h1: "truthy (accessToken ?start)"
    by (simp add: readySession_def truthy_def)
  have h2: "fetch scripted About ?start =
      (Inr \<lparr>status = 401, json_content_type = False, text_r = ''Invalid Credentials'',
            json_r = None\<rparr>,
       (readySession [])\<lparr>calls := [\<lparr>bearer = Some ''token'', target = About\<rparr>]\<rparr>)"
    by (simp add: eval_defs readySession_def)
  have h3: "\<not> ok \<lparr>status = 401, json_content_type = False, text_r = ''Invalid Credentials'',
            json_r = None\<rparr>"
    by (simp add: ok_def)
  from listFiles_session_expired [OF h1 h2 h3] h1 show ?thesis
    by simp
qed

section \<open>Metadata update\<close>








section \<open>Identity of a record\<close>





section \<open>Folder provisioning on the drive\<close>

lemma parent_query: "(if truthy p then p else Some ''root'') = Some (orElse p ''root'')"
  by (cases p) (auto simp: truthy_def orElse_def)

lemma drive_search:
  assumes "truthy (accessToken st)"
  shows "makeRequest driveProvider (Search nm q) st =
     (Inr (FileList (map listed (filter (matches nm q) (entries (remote st))))),
      st\<lparr>calls := calls st @ [\<lparr>bearer = accessToken st, target = Search nm q\<rparr>]\<rparr>)"
  using assms
  by (simp add: makeRequest_def fetch_def action_defs driveProvider_def okJson_def ok_def)

lemma drive_create:
  assumes "truthy (accessToken st)"
  shows "makeRequest driveProvider (CreateFolder n ps) st =
     (case unused_ids (remote st) of
        [] \<Rightarrow> (Inl (DriveApiError 500 ''Internal Error''),
                st\<lparr>calls := calls st @ [\<lparr>bearer = accessToken st, target = CreateFolder n ps\<rparr>]\<rparr>)
      | i # rest \<Rightarrow>
          (Inr (FileObj (listed \<lparr>entry_id = i, entry_name = n,
                  entry_parents = (if ps = [] then [''root''] else ps), entry_trashed = False\<rparr>)),
           st\<lparr>remote := (remote st)\<lparr>entries := entries (remote st) @
                    [\<lparr>entry_id = i, entry_name = n,
                      entry_parents = (if ps = [] then [''root''] else ps),
                      entry_trashed = False\<rparr>], unused_ids := rest\<rparr>,
              calls := calls st @ [\<lparr>bearer = accessToken st, target = CreateFolder n ps\<rparr>]\<rparr>))"
  using assms
  by (simp add: makeRequest_def fetch_def action_defs driveProvider_def okJson_def ok_def
      httpError_def Let_def split: list.splits)

lemma findOrCreateFolder_drive:
  assumes "truthy (accessToken st)"
  shows "findOrCreateFolder driveProvider n p st =
     (case filter (matches (Some n) (Some (orElse p ''root''))) (entries (remote st)) of
        e # es \<Rightarrow> (Inr (Some (entry_id e)),
           st\<lparr>calls := calls st @
             [\<lparr>bearer = accessToken st, target = Search (Some n) (Some (orElse p ''root''))\<rparr>]\<rparr>)
      | [] \<Rightarrow>
         (case unused_ids (remote st) of
            [] \<Rightarrow> (Inl (DriveApiError 500 ''Internal Error''),
               st\<lparr>calls := calls st @
                 [\<lparr>bearer = accessToken st, target = Search (Some n) (Some (orElse p ''root''))\<rparr>,
                  \<lparr>bearer = accessToken st, target = CreateFolder n
                     (case p of Some q \<Rightarrow> if q = [] then [] else [q] | None \<Rightarrow> [])\<rparr>]\<rparr>)
          | i # rest \<Rightarrow> (Inr (Some i),
               st\<lparr>remote := (remote st)\<lparr>entries := entries (remote st) @ [folderCreated n p i],
                       unused_ids := rest\<rparr>,
                 calls := calls st @
                 [\<lparr>bearer = accessToken st, target = Search (Some n) (Some (orElse p ''root''))\<rparr>,
                  \<lparr>bearer = accessToken st, target = CreateFolder n
                     (case p of Some q \<Rightarrow> if q = [] then [] else [q] | None \<Rightarrow> [])\<rparr>]\<rparr>)))"
proof (cases "truthy p")
  case True
  then obtain q where "p = Some q" "q \<noteq> []"
    by (cases p) (auto simp: truthy_def)
  then show ?thesis
    unfolding findOrCreateFolder_def parent_query
    by (simp add: andThen_def succeed_def drive_search drive_create assms orElse_def
        folderCreated_def listed_def split: list.splits)
next
  case False
  then have "p = None \<or> p = Some []"
    by (cases p) (auto simp: truthy_def)
  then show ?thesis
    unfolding findOrCreateFolder_def parent_query
    by (auto simp add: andThen_def succeed_def drive_search drive_create assms orElse_def
        folderCreated_def listed_def split: list.splits)
qed

lemma folderCreated_id [simp]: "entry_id (folderCreated n p i) = i"
  by (simp add: folderCreated_def)

lemma matches_created:
  "matches (Some n') q (folderCreated n p i) \<longleftrightarrow> n = n' \<and> q = Some (orElse p ''root'')"
  by (cases q) (auto simp: matches_def folderCreated_def)

text \<open>After a successful step the folder is the first match of its own search.\<close>

lemma findOrCreateFolder_drive_success:
  assumes "findOrCreateFolder driveProvider n p st = (Inr r, st')"
    and "truthy (accessToken st)"
  shows "\<exists>e es. filter (matches (Some n) (Some (orElse p ''root''))) (entries (remote st')) = e # es
      \<and> r = Some (entry_id e)"
  using assms
  by (auto simp add: findOrCreateFolder_drive matches_created split: list.splits)

text \<open>A step for one folder name leaves the matches of every other name alone.\<close>

lemma findOrCreateFolder_drive_other:
  assumes "findOrCreateFolder driveProvider n' p' st = (Inr r, st')"
    and "truthy (accessToken st)" and "n' \<noteq> n"
  shows "filter (matches (Some n) q) (entries (remote st')) =
         filter (matches (Some n) q) (entries (remote st))"
  using assms
  by (auto simp add: findOrCreateFolder_drive matches_created split: list.splits)

lemma findOrCreateFolder_drive_frame:
  assumes "findOrCreateFolder driveProvider n p st = (r, st')"
    and "truthy (accessToken st)"
  shows "accessToken st' = accessToken st" and "rootFolderId st' = rootFolderId st"
    and "docsFolderId st' = docsFolderId st" and "metadataFolderId st' = metadataFolderId st"
    and "settingsFolderId st' = settingsFolderId st"
  using assms by (auto simp add: findOrCreateFolder_drive split: list.splits)

lemma findOrCreateFolder_drive_found:
  assumes "truthy (accessToken st)"
    and "filter (matches (Some n) (Some (orElse p ''root''))) (entries (remote st)) = e # es"
  shows "findOrCreateFolder driveProvider n p st = (Inr (Some (entry_id e)),
           st\<lparr>calls := calls st @
             [\<lparr>bearer = accessToken st, target = Search (Some n) (Some (orElse p ''root''))\<rparr>]\<rparr>)"
  using assms by (simp add: findOrCreateFolder_drive)

lemma folder_names_distinct:
  "DOCS_FOLDER_NAME \<noteq> ROOT_FOLDER_NAME" "METADATA_FOLDER_NAME \<noteq> ROOT_FOLDER_NAME"
  "SETTINGS_FOLDER_NAME \<noteq> ROOT_FOLDER_NAME" "METADATA_FOLDER_NAME \<noteq> DOCS_FOLDER_NAME"
  "SETTINGS_FOLDER_NAME \<noteq> DOCS_FOLDER_NAME" "SETTINGS_FOLDER_NAME \<noteq> METADATA_FOLDER_NAME"
  by (simp_all add: ROOT_FOLDER_NAME_def DOCS_FOLDER_NAME_def METADATA_FOLDER_NAME_def
      SETTINGS_FOLDER_NAME_def)

text \<open>
  Claim C6. On the drive, when \<open>initializeFolderStructure\<close> has succeeded once, a second
  call in the same session succeeds too, caches the same four folder identifiers and
  leaves the drive as it is: it sends the four searches (root folder under \<open>root\<close>, the
  three children under the root folder) and no creation, since each search now finds the
  folder of that name under that parent.
\<close>

theorem initializeFolderStructure_idempotent:
  assumes "initializeFolderStructure driveProvider st = (Inr True, st1)"
  shows "\<exists>st2. initializeFolderStructure driveProvider st1 = (Inr True, st2) \<and>
     rootFolderId st2 = rootFolderId st1 \<and> docsFolderId st2 = docsFolderId st1 \<and>
     metadataFolderId st2 = metadataFolderId st1 \<and> settingsFolderId st2 = settingsFolderId st1 \<and>
     remote st2 = remote st1 \<and>
     map target (drop (length (calls st1)) (calls st2)) =
       [Search (Some ROOT_FOLDER_NAME) (Some ''root''),
        Search (Some DOCS_FOLDER_NAME) (Some (orElse (rootFolderId st1) ''root'')),
        Search (Some METADATA_FOLDER_NAME) (Some (orElse (rootFolderId st1) ''root'')),
        Search (Some SETTINGS_FOLDER_NAME) (Some (orElse (rootFolderId st1) ''root''))]"
proof -
  from assms obtain root s1 docs s2 meta s3 settings s4 where
    tok: "truthy (accessToken st)"
    and a: "findOrCreateFolder driveProvider ROOT_FOLDER_NAME None st = (Inr root, s1)"
    and b: "findOrCreateFolder driveProvider DOCS_FOLDER_NAME root (s1\<lparr>rootFolderId := root\<rparr>)
        = (Inr docs, s2)"
    and c: "findOrCreateFolder driveProvider METADATA_FOLDER_NAME root (s2\<lparr>docsFolderId := docs\<rparr>)
        = (Inr meta, s3)"
    and d: "findOrCreateFolder driveProvider SETTINGS_FOLDER_NAME root
        (s3\<lparr>metadataFolderId := meta\<rparr>) = (Inr settings, s4)"
    and st1: "st1 = s4\<lparr>settingsFolderId := settings\<rparr>"
    by (auto simp add: initializeFolderStructure_def run_simps split: if_splits)
  note fa = findOrCreateFolder_drive_frame [OF a tok]
  have tok1: "truthy (accessToken (s1\<lparr>rootFolderId := root\<rparr>))"
    using fa tok by simp
  note fb = findOrCreateFolder_drive_frame [OF b tok1]
  have tok2: "truthy (accessToken (s2\<lparr>docsFolderId := docs\<rparr>))"
    using fb tok1 by simp
  note fc = findOrCreateFolder_drive_frame [OF c tok2]
  have tok3: "truthy (accessToken (s3\<lparr>metadataFolderId := meta\<rparr>))"
    using fc tok2 by simp
  note fd = findOrCreateFolder_drive_frame [OF d tok3]
  have tok4: "truthy (accessToken st1)"
    using fd tok3 st1 by simp
  have ids: "rootFolderId st1 = root" "docsFolderId st1 = docs" "metadataFolderId st1 = meta"
    "settingsFolderId st1 = settings"
    using fb fc fd st1 by simp_all
  obtain e1 es1 where r1: "filter (matches (Some ROOT_FOLDER_NAME) (Some ''root''))
      (entries (remote st1)) = e1 # es1" and root: "root = Some (entry_id e1)"
    using findOrCreateFolder_drive_success [OF a tok]
      findOrCreateFolder_drive_other [OF b tok1 folder_names_distinct(1)]
      findOrCreateFolder_drive_other [OF c tok2 folder_names_distinct(2)]
      findOrCreateFolder_drive_other [OF d tok3 folder_names_distinct(3)]
    by (auto simp add: st1 orElse_def)
  obtain e2 es2 where r2: "filter (matches (Some DOCS_FOLDER_NAME) (Some (orElse root ''root'')))
      (entries (remote st1)) = e2 # es2" and docs: "docs = Some (entry_id e2)"
    using findOrCreateFolder_drive_success [OF b tok1]
      findOrCreateFolder_drive_other [OF c tok2 folder_names_distinct(4)]
      findOrCreateFolder_drive_other [OF d tok3 folder_names_distinct(5)]
    by (auto simp add: st1)
  obtain e3 es3 where r3: "filter (matches (Some METADATA_FOLDER_NAME) (Some (orElse root ''root'')))
      (entries (remote st1)) = e3 # es3" and meta: "meta = Some (entry_id e3)"
    using findOrCreateFolder_drive_success [OF c tok2]
      findOrCreateFolder_drive_other [OF d tok3 folder_names_distinct(6)]
    by (auto simp add: st1)
  obtain e4 es4 where r4: "filter (matches (Some SETTINGS_FOLDER_NAME) (Some (orElse root ''root'')))
      (entries (remote st1)) = e4 # es4" and settings: "settings = Some (entry_id e4)"
    using findOrCreateFolder_drive_success [OF d tok3]
    by (auto simp add: st1)
  have none: "orElse None ''root'' = ''root''"
    by (simp add: orElse_def)
  have run: "initializeFolderStructure driveProvider st1 =
     (Inr True, st1\<lparr>calls := calls st1 @
        [\<lparr>bearer = accessToken st1, target = Search (Some ROOT_FOLDER_NAME) (Some ''root'')\<rparr>,
         \<lparr>bearer = accessToken st1,
          target = Search (Some DOCS_FOLDER_NAME) (Some (orElse root ''root''))\<rparr>,
         \<lparr>bearer = accessToken st1,
          target = Search (Some METADATA_FOLDER_NAME) (Some (orElse root ''root''))\<rparr>,
         \<lparr>bearer = accessToken st1,
          target = Search (Some SETTINGS_FOLDER_NAME) (Some (orElse root ''root''))\<rparr>]\<rparr>)"
    using tok4 r1 r2 r3 r4 ids
    by (simp add: initializeFolderStructure_def action_defs findOrCreateFolder_drive none
        root [symmetric] docs [symmetric] meta [symmetric] settings [symmetric])
  show ?thesis
    unfolding run using ids by simp
qed

theorem initializeFolderStructure_idempotent_witness:
  "fst (initializeFolderStructure driveProvider (freshSession emptyDrive)) = Inr True \<and>
   fst (initializeFolderStructure driveProvider
          (snd (initializeFolderStructure driveProvider (freshSession emptyDrive)))) = Inr True \<and>
   map entry_name (entries (remote (snd (initializeFolderStructure driveProvider
          (snd (initializeFolderStructure driveProvider (freshSession emptyDrive)))))))
     = [''wecare'', ''docs'', ''metadata'', ''settings''] \<and>
   docsFolderId (snd (initializeFolderStructure driveProvider
          (snd (initializeFolderStructure driveProvider (freshSession emptyDrive))))) = Some ''b''"
proof -
  define st1 where "st1 = snd (initializeFolderStructure driveProvider (freshSession emptyDrive))"
  note run_defs = initializeFolderStructure_def findOrCreateFolder_def makeRequest_def eval_defs
    driveProvider_def matches_def listed_def ROOT_FOLDER_NAME_def DOCS_FOLDER_NAME_def
    METADATA_FOLDER_NAME_def SETTINGS_FOLDER_NAME_def freshSession_def emptyDrive_def
  have "fst (initializeFolderStructure driveProvider (freshSession emptyDrive)) = Inr True"
    by (simp add: run_defs)
  then have first: "initializeFolderStructure driveProvider (freshSession emptyDrive)
      = (Inr True, st1)"
    unfolding st1_def by (metis prod.collapse)
  have docs: "docsFolderId st1 = Some ''b''"
    unfolding st1_def by (simp add: run_defs)
  have names: "map entry_name (entries (remote st1)) =
      [''wecare'', ''docs'', ''metadata'', ''settings'']"
    unfolding st1_def by (simp add: run_defs)
  from initializeFolderStructure_idempotent [OF first] obtain st2 where
    second: "initializeFolderStructure driveProvider st1 = (Inr True, st2)"
    and same: "docsFolderId st2 = docsFolderId st1" "remote st2 = remote st1"
    by blast
  show ?thesis
    unfolding st1_def [symmetric]
    using first second same docs names by simp
qed

end
